theory Spec2Isabelle
  imports Complex_Main
begin

section \<open>Numbers, rounding and errors\<close>

text \<open>
  The calculators of \<^verbatim>\<open>app.py\<close> work on Python \<^verbatim>\<open>float\<close> values (amounts, rates,
  percentages, years) and Python \<^verbatim>\<open>int\<close> values (months, compounding periods,
  inquiries). The embedding takes a \<^verbatim>\<open>float\<close> as a \<^typ>\<open>real\<close> and an \<^verbatim>\<open>int\<close> as an
  \<^typ>\<open>int\<close>: arithmetic is exact, and the overflow, infinities and NaN of IEEE doubles
  are outside the model. Everything else of the source is kept: the order of the
  tests, the places where a value is rounded, and the divisions that raise.
\<close>

datatype py_error = ZeroDivisionError | TypeError

text \<open>
  Python's \<^verbatim>\<open>round(x)\<close>: the nearest integer, a tie going to the even neighbour.
\<close>

definition py_round :: "real \<Rightarrow> int" where
  "py_round x =
     (let f = \<lfloor>x\<rfloor>; d = x - of_int f
      in if d < 1 / 2 then f
         else if 1 / 2 < d then f + 1
         else if even f then f else f + 1)"

text \<open>Python's \<^verbatim>\<open>round(x, n)\<close> for a non-negative number of digits \<open>n\<close>.\<close>

definition round_nd :: "real \<Rightarrow> nat \<Rightarrow> real" where
  "round_nd x n = of_int (py_round (x * 10 ^ n)) / 10 ^ n"

section \<open>Loan calculator\<close>

text \<open>
  \<^verbatim>\<open>emi(principal, annual_rate_percent, months)\<close>. The division by
  \<^verbatim>\<open>(1 + r) ** months - 1\<close> raises when that value is zero.
\<close>

definition emi :: "real \<Rightarrow> real \<Rightarrow> int \<Rightarrow> py_error + real" where
  "emi princ annual_rate_percent months =
     (if princ \<le> 0 \<or> months \<le> 0 then Inr 0
      else let r = (annual_rate_percent / 100) / 12
           in if r = 0 then Inr (round_nd (princ / of_int months) 2)
              else if (1 + r) ^ nat months - 1 = 0 then Inl ZeroDivisionError
              else Inr (round_nd (princ * r * (1 + r) ^ nat months
                                    / ((1 + r) ^ nat months - 1)) 2))"

record loan_result =
  emi_field :: real
  total_payment :: real
  total_interest :: real

definition loan_summary :: "real \<Rightarrow> real \<Rightarrow> int \<Rightarrow> py_error + loan_result" where
  "loan_summary princ annual_rate_percent months =
     (case emi princ annual_rate_percent months of
        Inl err \<Rightarrow> Inl err
      | Inr e \<Rightarrow>
          let total_payment = round_nd (e * of_int months) 2;
              total_interest = round_nd (total_payment - princ) 2
          in Inr \<lparr>emi_field = e, total_payment = total_payment,
                  total_interest = total_interest\<rparr>)"

text \<open>
  The totals that the specification's wording describes, for comparison with
  \<open>loan_summary\<close>: the instalment before any rounding, and the two totals each
  rounded once from it.
\<close>

definition spec_emi_unrounded :: "real \<Rightarrow> real \<Rightarrow> int \<Rightarrow> real" where
  "spec_emi_unrounded princ annual_rate_percent months =
     (if princ \<le> 0 \<or> months \<le> 0 then 0
      else let r = (annual_rate_percent / 100) / 12
           in if r = 0 then princ / of_int months
              else princ * r * (1 + r) ^ nat months / ((1 + r) ^ nat months - 1))"

definition spec_total_payment :: "real \<Rightarrow> real \<Rightarrow> int \<Rightarrow> real" where
  "spec_total_payment princ annual_rate_percent months =
     round_nd (spec_emi_unrounded princ annual_rate_percent months * of_int months) 2"

definition spec_total_interest :: "real \<Rightarrow> real \<Rightarrow> int \<Rightarrow> real" where
  "spec_total_interest princ annual_rate_percent months =
     round_nd (spec_emi_unrounded princ annual_rate_percent months * of_int months - princ) 2"

section \<open>Tax calculator\<close>

record gst_result =
  base :: real
  gst :: real
  gross :: real

text \<open>
  \<^verbatim>\<open>gst_breakup(amount, gst_rate_percent, mode)\<close>. Any mode other than
  \<^verbatim>\<open>"add"\<close> takes the \<^verbatim>\<open>else\<close> branch, where \<^verbatim>\<open>amount / (1 + r)\<close> raises
  at \<open>r = -1\<close>.
\<close>

definition gst_breakup :: "real \<Rightarrow> real \<Rightarrow> string \<Rightarrow> py_error + gst_result" where
  "gst_breakup amount gst_rate_percent mode =
     (let r = gst_rate_percent / 100
      in if mode = ''add'' then
           let tax = round_nd (amount * r) 2;
               gross_amt = round_nd (amount + tax) 2
           in Inr \<lparr>base = amount, gst = tax, gross = gross_amt\<rparr>
         else if r \<noteq> 0 \<and> 1 + r = 0 then Inl ZeroDivisionError
         else
           let base_amt = (if r \<noteq> 0 then round_nd (amount / (1 + r)) 2 else amount);
               tax = round_nd (amount - base_amt) 2
           in Inr \<lparr>base = base_amt, gst = tax, gross = amount\<rparr>)"

section \<open>Deposit calculator\<close>

text \<open>
  Python's \<^verbatim>\<open>x ** y\<close> on two floats: \<open>1.0\<close> for a zero exponent whatever the
  base, an error for zero to a negative power, and a complex number (here \<open>None\<close>) for
  a negative base with a fractional exponent.
\<close>

definition float_pow :: "real \<Rightarrow> real \<Rightarrow> py_error + real option" where
  "float_pow x y =
     (if y = 0 then Inr (Some 1)
      else if x = 0 then (if y < 0 then Inl ZeroDivisionError else Inr (Some 0))
      else if 0 < x then Inr (Some (x powr y))
      else if y = of_int \<lfloor>y\<rfloor> then Inr (Some (x powi \<lfloor>y\<rfloor>))
      else Inr None)"

record deposit_result =
  maturity :: real
  interest :: real

text \<open>
  \<^verbatim>\<open>fd_maturity(principal, annual_rate_percent, years, comp_per_year)\<close>, with
  \<^verbatim>\<open>years\<close> a float and \<^verbatim>\<open>comp_per_year\<close> an int, as \<^verbatim>\<open>api_fd\<close> passes them.
  \<^verbatim>\<open>r / n\<close> raises for \<open>n = 0\<close>; a complex power makes \<^verbatim>\<open>round\<close> raise a
  \<^verbatim>\<open>TypeError\<close>.
\<close>

definition fd_maturity :: "real \<Rightarrow> real \<Rightarrow> real \<Rightarrow> int \<Rightarrow> py_error + deposit_result" where
  "fd_maturity princ annual_rate_percent years comp_per_year =
     (let r = annual_rate_percent / 100; n = comp_per_year; t = years
      in if n = 0 then Inl ZeroDivisionError
         else case float_pow (1 + r / of_int n) (of_int n * t) of
                Inl err \<Rightarrow> Inl err
              | Inr None \<Rightarrow> Inl TypeError
              | Inr (Some pw) \<Rightarrow>
                  let maturity_amt = princ * pw;
                      interest_amt = maturity_amt - princ
                  in Inr \<lparr>maturity = round_nd maturity_amt 2,
                          interest = round_nd interest_amt 2\<rparr>)"

text \<open>
  \<^verbatim>\<open>rd_maturity(monthly_installment, annual_rate_percent, months, comp_per_year)\<close>.
  The exponent \<^verbatim>\<open>months\<close> is a positive int where the power is taken, and the only
  division is by \<open>i \<noteq> 0\<close>, so nothing raises.
\<close>

definition rd_maturity :: "real \<Rightarrow> real \<Rightarrow> int \<Rightarrow> int \<Rightarrow> deposit_result" where
  "rd_maturity monthly_installment annual_rate_percent months comp_per_year =
     (if monthly_installment \<le> 0 \<or> months \<le> 0 then \<lparr>maturity = 0, interest = 0\<rparr>
      else let r_annual = annual_rate_percent / 100;
               i = r_annual / 12
           in if i = 0 then
                let maturity_amt = monthly_installment * of_int months
                in \<lparr>maturity = round_nd maturity_amt 2, interest = 0\<rparr>
              else
                let factor = ((1 + i) ^ nat months - 1) / i;
                    maturity_amt = monthly_installment * factor * (1 + i);
                    deposit = monthly_installment * of_int months;
                    interest_amt = maturity_amt - deposit
                in \<lparr>maturity = round_nd maturity_amt 2,
                    interest = round_nd interest_amt 2\<rparr>)"

section \<open>Credit score estimator\<close>

text \<open>
  \<^verbatim>\<open>estimate_credit_score\<close>, with \<^verbatim>\<open>inquiries\<close> an int and the other four inputs
  floats, as \<^verbatim>\<open>api_credit_score\<close> passes them.
\<close>

definition estimate_credit_score :: "real \<Rightarrow> real \<Rightarrow> real \<Rightarrow> int \<Rightarrow> real \<Rightarrow> int" where
  "estimate_credit_score payment_history_pct utilization_pct credit_age_years inquiries dti_pct =
     (let ph = max 0 (min 100 payment_history_pct);
          util = max 0 (min 100 utilization_pct);
          age = max 0 credit_age_years;
          inq = max 0 inquiries;
          dti = max 0 (min 100 dti_pct);
          s_payment = ph;
          s_util = max 0 (100 - util);
          s_age = min 100 (age * 10);
          s_inq = max 0 (100 - inq * 10);
          s_dti = max 0 (100 - dti);
          score_100 = 35 / 100 * s_payment + 30 / 100 * s_util + 15 / 100 * s_age
                      + 10 / 100 * of_int s_inq + 10 / 100 * s_dti;
          score = 300 + (score_100 / 100) * (850 - 300)
      in py_round score)"

section \<open>Currency converter\<close>

definition STATIC_RATES_BASE_USD :: "string \<rightharpoonup> real" where
  "STATIC_RATES_BASE_USD =
     [''INR'' \<mapsto> 84, ''USD'' \<mapsto> 1, ''EUR'' \<mapsto> 91 / 100, ''GBP'' \<mapsto> 76 / 100,
      ''JPY'' \<mapsto> 155, ''AUD'' \<mapsto> 145 / 100, ''CAD'' \<mapsto> 134 / 100]"

text \<open>
  A currency code is a Python \<^verbatim>\<open>str\<close>, here the list of the bytes of its UTF-8
  encoding. \<^verbatim>\<open>api_currency\<close> looks a code up after \<^verbatim>\<open>str.upper()\<close>, a function of
  the Python library over all of Unicode (it also takes the long s to \<^verbatim>\<open>S\<close> and the
  dotless i to \<^verbatim>\<open>I\<close>). The embedding does not fix that function: it is the argument
  \<open>upper\<close> of the converter, and what is proved holds for every such function.
\<close>

record currency_result =
  converted :: real
  rate_used :: real
  note_field :: string

text \<open>
  The outcomes of \<^verbatim>\<open>api_currency\<close> other than a result: the HTTP 400 answer for a
  code that is not in the table, and an exception of the arithmetic.
\<close>

datatype currency_error = UnsupportedCurrency | Raised py_error

text \<open>
  \<^verbatim>\<open>api_currency\<close> with the case mapping and the rate table as arguments;
  \<^verbatim>\<open>custom_rate\<close> is \<open>None\<close> when the request carries none.
\<close>

definition api_currency_on ::
  "(string \<Rightarrow> string) \<Rightarrow> (string \<rightharpoonup> real) \<Rightarrow> real \<Rightarrow> string \<Rightarrow> string \<Rightarrow> real option
     \<Rightarrow> currency_error + currency_result" where
  "api_currency_on upper rates amount from_code_raw to_code_raw custom_rate =
     (let from_code = upper from_code_raw;
          to_code = upper to_code_raw
      in case custom_rate of
           Some rate \<Rightarrow>
             Inr \<lparr>converted = round_nd (amount * rate) 4, rate_used = rate,
                  note_field = ''Custom rate''\<rparr>
         | None \<Rightarrow>
             (case (rates from_code, rates to_code) of
                (Some rate_from, Some rate_to) \<Rightarrow>
                  if rate_from = 0 then Inl (Raised ZeroDivisionError)
                  else
                    let amount_usd = amount / rate_from;
                        converted_amt = amount_usd * rate_to
                    in Inr \<lparr>converted = round_nd converted_amt 4,
                            rate_used = rate_to / rate_from,
                            note_field = ''Static demo rates''\<rparr>
              | _ \<Rightarrow> Inl UnsupportedCurrency))"

text \<open>The route itself: the converter over the static table of the module.\<close>

definition api_currency ::
  "(string \<Rightarrow> string) \<Rightarrow> real \<Rightarrow> string \<Rightarrow> string \<Rightarrow> real option
     \<Rightarrow> currency_error + currency_result" where
  "api_currency upper = api_currency_on upper STATIC_RATES_BASE_USD"

text \<open>
  For concrete runs on codes written in ASCII only: on such a string
  \<^verbatim>\<open>str.upper()\<close> changes the letters \<^verbatim>\<open>a\<close> to \<^verbatim>\<open>z\<close> and nothing else. This is not
  \<^verbatim>\<open>str.upper()\<close> on other strings, and no theorem below depends on it but the
  run on \<^verbatim>\<open>usd\<close>, \<^verbatim>\<open>inr\<close> and \<^verbatim>\<open>xyz\<close>.
\<close>

definition ascii_upper :: "string \<Rightarrow> string" where
  "ascii_upper s =
     map (\<lambda>c. case map_of (zip ''abcdefghijklmnopqrstuvwxyz'' ''ABCDEFGHIJKLMNOPQRSTUVWXYZ'') c of
                 Some u \<Rightarrow> u
               | None \<Rightarrow> c) s"

section \<open>Rounding facts\<close>

lemma py_round_of_int: "py_round (of_int k) = k"
  by (simp add: py_round_def)

lemma round_nd_zero: "round_nd 0 n = 0"
  by (simp add: round_nd_def py_round_def)

lemma py_round_err: "\<bar>of_int (py_round x) - x\<bar> \<le> 1 / 2"
  unfolding py_round_def Let_def by (auto; linarith)

text \<open>
  Two results of rounding that were out of order would be at least one apart, while
  each is within a half of its argument: the arguments would coincide.
\<close>

lemma py_round_mono: "x \<le> y \<Longrightarrow> py_round x \<le> py_round y"
proof (rule ccontr)
  assume le: "x \<le> y" and "\<not> py_round x \<le> py_round y"
  then have "py_round y + 1 \<le> py_round x" by simp
  then have gap: "real_of_int (py_round y) + 1 \<le> real_of_int (py_round x)" by linarith
  with py_round_err [of x] py_round_err [of y] le have "x = y" by linarith
  with gap show False by simp
qed

lemma py_round_ge: "of_int a \<le> x \<Longrightarrow> a \<le> py_round x"
  using py_round_mono [of "of_int a" x] by (simp add: py_round_of_int)

lemma py_round_le: "x \<le> of_int b \<Longrightarrow> py_round x \<le> b"
  using py_round_mono [of x "of_int b"] by (simp add: py_round_of_int)

lemma round_nd_idem: "round_nd (round_nd x n) n = round_nd x n"
  by (simp add: round_nd_def py_round_of_int)

section \<open>Loan calculator: the degenerate case and the totals\<close>

text \<open>
  With a non-positive principal or month count \<open>emi\<close> returns zero and nothing raises;
  \<open>loan_summary\<close> then still subtracts the principal from the zero total.
\<close>

lemma loan_summary_degenerate:
  "princ \<le> 0 \<or> months \<le> 0 \<Longrightarrow>
   loan_summary princ rate months =
     Inr \<lparr>emi_field = 0, total_payment = 0, total_interest = round_nd (- princ) 2\<rparr>"
  by (simp add: loan_summary_def emi_def round_nd_zero)

text \<open>
  C1. For months = 0 or principal \<open>\<le>\<close> 0 the loan summary is said to be all zero: emi,
  total payment and total interest. The code, run on principal 1000, rate 10 and
  0 months, returns emi 0 and total payment 0 but total interest -1000.
\<close>

theorem loan_summary_zero_months_interest:
  "loan_summary 1000 10 0 = Inr \<lparr>emi_field = 0, total_payment = 0, total_interest = - 1000\<rparr>"
  by (simp add: loan_summary_def emi_def round_nd_def py_round_def)

text \<open>
  C3, as stated: the two totals are each rounded once from the unrounded instalment.
  For principal 100 at rate 0 over 3 months that would give a total payment of 100 and
  an interest of 0; the code returns 99.99 and -0.01, three times the rounded 33.33.
\<close>

theorem loan_summary_rounded_emi_counterexample:
  "loan_summary 100 0 3 =
     Inr \<lparr>emi_field = 3333 / 100, total_payment = 9999 / 100, total_interest = - 1 / 100\<rparr>
   \<and> spec_total_payment 100 0 3 = 100 \<and> spec_total_interest 100 0 3 = 0"
  by (simp add: loan_summary_def emi_def spec_total_payment_def spec_total_interest_def
      spec_emi_unrounded_def round_nd_def py_round_def Let_def)

text \<open>
  What \<open>emi\<close> returns has already been rounded: it is the unrounded instalment of the
  formula rounded to 2 decimals, so rounding it again changes nothing.
\<close>

lemma emi_is_rounded:
  "emi princ rate months = Inr e \<Longrightarrow> e = round_nd (spec_emi_unrounded princ rate months) 2"
  by (auto simp: emi_def spec_emi_unrounded_def Let_def round_nd_zero split: if_splits)

text \<open>
  C3, amended: the instalment in the summary is the one \<open>emi\<close> returns, the unrounded
  instalment rounded to 2 decimals; the total payment is that already rounded
  instalment times the months, rounded to 2 decimals; and the total interest is that
  rounded total minus the principal, rounded to 2 decimals again.
\<close>

theorem loan_summary_totals:
  "loan_summary princ rate months = Inr s \<Longrightarrow>
   emi princ rate months = Inr (emi_field s)
   \<and> emi_field s = round_nd (spec_emi_unrounded princ rate months) 2
   \<and> round_nd (emi_field s) 2 = emi_field s
   \<and> total_payment s = round_nd (emi_field s * of_int months) 2
   \<and> total_interest s = round_nd (total_payment s - princ) 2"
proof -
  assume run: "loan_summary princ rate months = Inr s"
  then have e: "emi princ rate months = Inr (emi_field s)"
    and tp: "total_payment s = round_nd (emi_field s * of_int months) 2"
    and ti: "total_interest s = round_nd (total_payment s - princ) 2"
    by (auto simp: loan_summary_def Let_def split: sum.splits)
  from e have r: "emi_field s = round_nd (spec_emi_unrounded princ rate months) 2"
    by (rule emi_is_rounded)
  then have "round_nd (emi_field s) 2 = emi_field s"
    by (simp add: round_nd_idem)
  with e r tp ti show ?thesis by simp
qed

text \<open>
  The scenario of the specification, 100000 at 10 percent over 12 months: the
  instalment 8791.59 is a rounded value, and the total 105499.08 is twelve times it.
\<close>

theorem loan_summary_totals_witness:
  "loan_summary 100000 10 12 =
     Inr \<lparr>emi_field = 879159 / 100, total_payment = 10549908 / 100,
          total_interest = 549908 / 100\<rparr>
   \<and> emi 100000 10 12 = Inr (879159 / 100)
   \<and> (879159 / 100 :: real) = round_nd (spec_emi_unrounded 100000 10 12) 2
   \<and> round_nd (879159 / 100) 2 = 879159 / 100
   \<and> (10549908 / 100 :: real) = round_nd (879159 / 100 * of_int 12) 2
   \<and> (549908 / 100 :: real) = round_nd (10549908 / 100 - 100000) 2"
proof -
  have run: "loan_summary 100000 10 12 =
     Inr \<lparr>emi_field = 879159 / 100, total_payment = 10549908 / 100,
          total_interest = 549908 / 100\<rparr>"
    by code_simp
  from loan_summary_totals [OF run] run show ?thesis by simp
qed

section \<open>Tax calculator: which fields are rounded\<close>

text \<open>
  C2, as stated: all three fields of the result are rounded to 2 decimals. In add mode
  the base is the input itself: for the amount 0.125 it is returned as 0.125, which
  rounding to 2 decimals would change.
\<close>

theorem gst_breakup_base_unrounded:
  "gst_breakup (1 / 8) 0 ''add'' = Inr \<lparr>base = 1 / 8, gst = 0, gross = 3 / 25\<rparr>
   \<and> round_nd (1 / 8) 2 \<noteq> 1 / 8"
  by (simp add: gst_breakup_def round_nd_def py_round_def)

text \<open>
  C2, amended: for a rate \<open>\<ge>\<close> 0, in add mode gst and gross are rounded to 2 decimals
  and base is the input amount unchanged; in remove mode gst is rounded, gross is the
  input amount unchanged, and base is rounded when the rate is not 0 and is the input
  amount unchanged when it is 0. A value is rounded when rounding leaves it as it is.
\<close>

theorem gst_breakup_rounded_fields:
  "0 \<le> rate \<Longrightarrow>
   (\<exists>s. gst_breakup amount rate ''add'' = Inr s \<and> base s = amount
        \<and> round_nd (gst s) 2 = gst s \<and> round_nd (gross s) 2 = gross s) \<and>
   (\<exists>s. gst_breakup amount rate ''remove'' = Inr s \<and> gross s = amount
        \<and> round_nd (gst s) 2 = gst s
        \<and> (if rate = 0 then base s = amount else round_nd (base s) 2 = base s))"
  by (auto simp: gst_breakup_def Let_def round_nd_idem)

theorem gst_breakup_rounded_fields_witness:
  "(0::real) \<le> 18
   \<and> gst_breakup 1000 18 ''add'' = Inr \<lparr>base = 1000, gst = 180, gross = 1180\<rparr>
   \<and> gst_breakup 1180 18 ''remove'' = Inr \<lparr>base = 1000, gst = 180, gross = 1180\<rparr>"
  using gst_breakup_rounded_fields [of 18 1000] gst_breakup_rounded_fields [of 18 1180]
  by (simp add: gst_breakup_def round_nd_def py_round_def)

section \<open>Tax calculator: the fallback of the mode\<close>

text \<open>
  C4. Every mode value other than add, any unrecognized string included, gets remove
  semantics: the result is the very result of remove mode. With r the rate as a
  fraction that is base = amount / (1 + r) when r is not 0 (else base = amount),
  gst = amount - base and gross = amount, base and gst each rounded to 2 decimals as
  this calculator rounds its computed fields; at 1 + r = 0 the division raises, in
  remove mode and in every other mode alike.
\<close>

theorem gst_breakup_fallback:
  "mode \<noteq> ''add'' \<Longrightarrow>
   gst_breakup amount rate mode = gst_breakup amount rate ''remove''
   \<and> (1 + rate / 100 \<noteq> 0 \<longrightarrow>
        gst_breakup amount rate mode =
          Inr \<lparr>base = (if rate / 100 \<noteq> 0 then round_nd (amount / (1 + rate / 100)) 2 else amount),
               gst = round_nd (amount - (if rate / 100 \<noteq> 0
                                         then round_nd (amount / (1 + rate / 100)) 2 else amount)) 2,
               gross = amount\<rparr>)
   \<and> (1 + rate / 100 = 0 \<longrightarrow> gst_breakup amount rate mode = Inl ZeroDivisionError)"
  by (auto simp: gst_breakup_def Let_def)

theorem gst_breakup_fallback_witness:
  "''reverse'' \<noteq> ''add'' \<and> (1 + 18 / 100 :: real) \<noteq> 0
   \<and> gst_breakup 1180 18 ''reverse'' = gst_breakup 1180 18 ''remove''
   \<and> gst_breakup 1180 18 ''reverse'' = Inr \<lparr>base = 1000, gst = 180, gross = 1180\<rparr>"
  using gst_breakup_fallback [of "''reverse''" 1180 18]
  by (auto simp add: round_nd_def py_round_def)

section \<open>Deposit calculator\<close>

text \<open>
  C7, as stated: after zero years the maturity is exactly the principal, for every
  compounding frequency. The maturity is rounded: the principal 0.125 comes back as
  0.12. And the frequency 0 makes \<^verbatim>\<open>r / n\<close> raise.
\<close>

theorem fd_maturity_zero_years_counterexample:
  "fd_maturity (1 / 8) 0 0 4 = Inr \<lparr>maturity = 3 / 25, interest = 0\<rparr>
   \<and> (3 / 25 :: real) \<noteq> 1 / 8
   \<and> fd_maturity 1 5 0 0 = Inl ZeroDivisionError"
  by (simp add: fd_maturity_def float_pow_def round_nd_def py_round_def)

text \<open>The frequency 0 raises whatever the other arguments are.\<close>

lemma fd_maturity_zero_frequency:
  "fd_maturity princ rate years 0 = Inl ZeroDivisionError"
  by (simp add: fd_maturity_def)

text \<open>
  C7, amended: for every principal, every rate and every compounding frequency other
  than 0, after zero years the maturity is the principal rounded to 2 decimals and the
  interest is 0.
\<close>

theorem fd_maturity_zero_years:
  "n \<noteq> 0 \<Longrightarrow>
   fd_maturity princ rate 0 n = Inr \<lparr>maturity = round_nd princ 2, interest = 0\<rparr>"
  by (simp add: fd_maturity_def float_pow_def round_nd_zero)

theorem fd_maturity_zero_years_witness:
  "(4::int) \<noteq> 0 \<and> fd_maturity 10000 7 0 4 = Inr \<lparr>maturity = 10000, interest = 0\<rparr>"
  using fd_maturity_zero_years [of 4 10000 7]
  by (simp add: round_nd_def py_round_def)

text \<open>
  C10. The result of \<open>rd_maturity\<close> does not depend on \<open>comp_per_year\<close>: any two
  values of it give the same maturity and the same interest.
\<close>

theorem rd_maturity_ignores_comp_per_year:
  "rd_maturity monthly_installment rate months c1 = rd_maturity monthly_installment rate months c2"
  by (simp add: rd_maturity_def)

section \<open>Credit score estimator\<close>

lemma score_mono_payment:
  "ph \<le> ph' \<Longrightarrow> estimate_credit_score ph u a i d \<le> estimate_credit_score ph' u a i d"
  unfolding estimate_credit_score_def Let_def
  by (rule py_round_mono) (simp add: max_def min_def)

lemma score_antimono_utilization:
  "u \<le> u' \<Longrightarrow> estimate_credit_score ph u' a i d \<le> estimate_credit_score ph u a i d"
  unfolding estimate_credit_score_def Let_def
  by (rule py_round_mono) (simp add: max_def min_def)

lemma score_antimono_inquiries:
  "i \<le> i' \<Longrightarrow> estimate_credit_score ph u a i' d \<le> estimate_credit_score ph u a i d"
  unfolding estimate_credit_score_def Let_def
  by (rule py_round_mono) (simp add: max_def min_def)

lemma score_antimono_dti:
  "d \<le> d' \<Longrightarrow> estimate_credit_score ph u a i d' \<le> estimate_credit_score ph u a i d"
  unfolding estimate_credit_score_def Let_def
  by (rule py_round_mono) (simp add: max_def min_def)

lemma score_lower: "300 \<le> estimate_credit_score ph u a i d"
  unfolding estimate_credit_score_def Let_def
  by (rule py_round_ge) (simp add: max_def min_def)

lemma score_upper: "estimate_credit_score ph u a i d \<le> 850"
  unfolding estimate_credit_score_def Let_def
  by (rule py_round_le) (simp add: max_def min_def)

text \<open>
  C5. With the other inputs fixed, the score does not decrease when the payment history
  grows, and does not increase when the utilization, the inquiries or the debt-to-income
  ratio grow; and every score lies between 300 and 850.
\<close>

theorem estimate_credit_score_monotone_bounded:
  "(ph \<le> ph' \<longrightarrow> estimate_credit_score ph u a i d \<le> estimate_credit_score ph' u a i d)
   \<and> (u \<le> u' \<longrightarrow> estimate_credit_score ph u' a i d \<le> estimate_credit_score ph u a i d)
   \<and> (i \<le> i' \<longrightarrow> estimate_credit_score ph u a i' d \<le> estimate_credit_score ph u a i d)
   \<and> (d \<le> d' \<longrightarrow> estimate_credit_score ph u a i d' \<le> estimate_credit_score ph u a i d)
   \<and> 300 \<le> estimate_credit_score ph u a i d
   \<and> estimate_credit_score ph u a i d \<le> 850"
  by (simp add: score_mono_payment score_antimono_utilization score_antimono_inquiries
      score_antimono_dti score_lower score_upper)

theorem estimate_credit_score_monotone_bounded_witness:
  "(50::real) \<le> 100 \<and> estimate_credit_score 50 10 10 0 10 \<le> estimate_credit_score 100 10 10 0 10
   \<and> (10::real) \<le> 60 \<and> estimate_credit_score 50 60 10 0 10 \<le> estimate_credit_score 50 10 10 0 10
   \<and> (0::int) \<le> 4 \<and> estimate_credit_score 50 10 10 4 10 \<le> estimate_credit_score 50 10 10 0 10
   \<and> (10::real) \<le> 45 \<and> estimate_credit_score 50 10 10 0 45 \<le> estimate_credit_score 50 10 10 0 10
   \<and> 300 \<le> estimate_credit_score 50 10 10 0 10 \<and> estimate_credit_score 50 10 10 0 10 \<le> 850"
  using estimate_credit_score_monotone_bounded [of 50 100 10 10 0 10 60 4 45]
  by simp

section \<open>Currency converter\<close>

lemma static_rates_nonzero: "STATIC_RATES_BASE_USD code = Some v \<Longrightarrow> v \<noteq> 0"
  by (auto simp: STATIC_RATES_BASE_USD_def split: if_splits)

text \<open>
  C8. Without a custom rate the conversion answers "unsupported currency" exactly when
  one of the two codes, as \<^verbatim>\<open>upper()\<close> returns it, is not in the static table, and
  that answer carries no converted amount; with both codes in the table it returns
  converted = (amount / rate[from]) * rate[to] rounded to 4 decimals and the rate used
  rate[to] / rate[from]. This holds whatever function \<^verbatim>\<open>upper()\<close> is.
\<close>

theorem api_currency_static:
  "(api_currency upper amount from_code to_code None = Inl UnsupportedCurrency
      \<longleftrightarrow> upper from_code \<notin> dom STATIC_RATES_BASE_USD
           \<or> upper to_code \<notin> dom STATIC_RATES_BASE_USD)
   \<and> (STATIC_RATES_BASE_USD (upper from_code) = Some rate_from
        \<longrightarrow> STATIC_RATES_BASE_USD (upper to_code) = Some rate_to
        \<longrightarrow> api_currency upper amount from_code to_code None =
              Inr \<lparr>converted = round_nd (amount / rate_from * rate_to) 4,
                   rate_used = rate_to / rate_from,
                   note_field = ''Static demo rates''\<rparr>)"
proof (cases "STATIC_RATES_BASE_USD (upper from_code)")
  case None
  then show ?thesis
    by (simp add: api_currency_def api_currency_on_def domIff)
next
  case (Some rf)
  note from_rate = this
  then have nz: "rf \<noteq> 0" by (rule static_rates_nonzero)
  show ?thesis
  proof (cases "STATIC_RATES_BASE_USD (upper to_code)")
    case None
    with from_rate show ?thesis
      by (simp add: api_currency_def api_currency_on_def domIff)
  next
    case (Some rt)
    with from_rate nz show ?thesis
      by (simp add: api_currency_def api_currency_on_def domIff Let_def)
  qed
qed

text \<open>
  The scenario of the specification, 100 USD in INR at the table's 84, and a code that
  the table does not have; the codes are ASCII, where \<open>ascii_upper\<close> is \<^verbatim>\<open>upper()\<close>.
\<close>

theorem api_currency_static_witness:
  "api_currency ascii_upper 100 ''usd'' ''inr'' None \<noteq> Inl UnsupportedCurrency
   \<and> STATIC_RATES_BASE_USD (ascii_upper ''usd'') = Some 1
   \<and> STATIC_RATES_BASE_USD (ascii_upper ''inr'') = Some 84
   \<and> api_currency ascii_upper 100 ''usd'' ''inr'' None =
       Inr \<lparr>converted = 8400, rate_used = 84, note_field = ''Static demo rates''\<rparr>
   \<and> ascii_upper ''xyz'' \<notin> dom STATIC_RATES_BASE_USD
   \<and> api_currency ascii_upper 100 ''usd'' ''xyz'' None = Inl UnsupportedCurrency"
  using api_currency_static [of ascii_upper 100 "''usd''" "''inr''" 1 84]
    api_currency_static [of ascii_upper 100 "''usd''" "''xyz''" 1 1]
  by (simp add: STATIC_RATES_BASE_USD_def ascii_upper_def round_nd_def py_round_def domIff)

text \<open>
  C9. With a custom rate the result is converted = amount * custom rate rounded to 4
  decimals, for every pair of codes and whatever the rate table holds, the empty table
  included: the table is not consulted and the unsupported-currency answer cannot occur.
\<close>

theorem api_currency_custom_rate:
  "api_currency_on upper rates amount from_code to_code (Some custom_rate) =
     Inr \<lparr>converted = round_nd (amount * custom_rate) 4, rate_used = custom_rate,
          note_field = ''Custom rate''\<rparr>
   \<and> api_currency upper amount from_code to_code (Some custom_rate) =
     Inr \<lparr>converted = round_nd (amount * custom_rate) 4, rate_used = custom_rate,
          note_field = ''Custom rate''\<rparr>"
  by (simp add: api_currency_def api_currency_on_def)

end
